theory Spec2Isabelle
  imports Main "HOL-Library.AList"
begin

section \<open>The Python event adapter: \<open>examples/adapters/notify.py\<close>\<close>

text \<open>
  The adapter is one function, \<open>notify\<close>, which builds a dictionary, hands it to
  \<open>requests.post\<close> and returns the decoded reply. Everything it touches outside itself
  (the process environment, the system clock, the HTTP library and the service behind it)
  is made explicit: the clock, the service and what the library reads from its
  surroundings are fields of a \<open>world\<close> that every call takes and returns, exceptions
  are values of the type \<open>error\<close>, and a call that would block for ever has no result
  (\<open>None\<close>). The library is modelled as far as \<open>notify\<close> depends on it: the request it
  prepares, the redirects it follows, the exceptions it raises.
\<close>

subsection \<open>Values\<close>

text \<open>
  Python values that can travel in a JSON document. A Python \<open>dict\<close> keeps its keys in
  insertion order and holds each key once, so an object is an association list that is
  only ever extended through \<open>AList.update\<close>: assigning an existing key replaces its
  value where it stands, a new key goes to the end. Every value of this type can be
  written as JSON; a Python value that cannot (a NaN, a set) is not an argument here.
\<close>

datatype json =
    JNull
  | JBool bool
  | JNum int
  | JStr string
  | JArr "json list"
  | JObj "(string \<times> json) list"

type_synonym dict = "(string \<times> json) list"

text \<open>\<open>{**d, **extra}\<close> and \<open>d.update(extra)\<close>: the items of \<open>extra\<close>, in their order.\<close>

fun dict_update :: "dict \<Rightarrow> dict \<Rightarrow> dict" where
  "dict_update d [] = d"
| "dict_update d ((k, v) # kvs) = dict_update (AList.update k v d) kvs"

text \<open>A dictionary display \<open>{k1: v1, ..., kn: vn, **extra}\<close>, evaluated left to right.\<close>

definition dict_display :: "dict \<Rightarrow> dict \<Rightarrow> dict" where
  "dict_display items extra = dict_update (dict_update [] items) extra"

subsection \<open>\<open>str\<close> of an integer\<close>

definition digit_char :: "nat \<Rightarrow> char" where
  "digit_char n = ''0123456789'' ! n"

function str_nat :: "nat \<Rightarrow> string" where
  "str_nat n = (if n < 10 then [digit_char n] else str_nat (n div 10) @ [digit_char (n mod 10)])"
  by pat_completeness auto
termination
  by (relation "measure (\<lambda>n. n)") auto

declare str_nat.simps [simp del]

definition str_int :: "int \<Rightarrow> string" where
  "str_int i = (if i < 0 then CHR ''-'' # str_nat (nat (- i)) else str_nat (nat i))"

subsection \<open>The clock\<close>

text \<open>
  A naive \<open>datetime\<close> object, and \<open>datetime.isoformat()\<close> with its default arguments:
  \<open>YYYY-MM-DDTHH:MM:SS\<close>, followed by \<open>.ffffff\<close> only when the microsecond is not zero.
\<close>

record datetime =
  year :: nat
  month :: nat
  day :: nat
  hour :: nat
  minute :: nat
  second :: nat
  microsecond :: nat

text \<open>The \<open>%0wd\<close> conversion of a natural number: zeros on the left up to width \<open>w\<close>.\<close>

definition zero_pad :: "nat \<Rightarrow> nat \<Rightarrow> string" where
  "zero_pad w n = replicate (w - length (str_nat n)) (CHR ''0'') @ str_nat n"

definition isoformat :: "datetime \<Rightarrow> string" where
  "isoformat d =
     zero_pad 4 (year d) @ ''-'' @ zero_pad 2 (month d) @ ''-'' @ zero_pad 2 (day d) @ ''T'' @
     zero_pad 2 (hour d) @ '':'' @ zero_pad 2 (minute d) @ '':'' @ zero_pad 2 (second d) @
     (if microsecond d = 0 then [] else ''.'' @ zero_pad 6 (microsecond d))"

text \<open>
  One reading of the system clock, as the two expressions of the source see it:
  \<open>now_millis\<close> is the value of \<open>int(datetime.datetime.now().timestamp() * 1000)\<close> (the
  floating-point product and its truncation are the interpreter's, and are taken as
  read), \<open>utcnow\<close> the value of \<open>datetime.datetime.utcnow()\<close>.
\<close>

record instant =
  now_millis :: int
  utcnow :: datetime

subsection \<open>The HTTP library\<close>

text \<open>The arguments of one call of \<open>requests.post\<close>: what \<open>notify\<close> hands to the library.\<close>

record request =
  verb :: string
  url :: string
  headers :: "(string \<times> string) list"
  json_body :: json
  timeout :: "nat option"

text \<open>
  One HTTP message that the library gives to a connection. Of the headers, those that
  the caller set are kept; the library's own (\<open>User-Agent\<close>, \<open>Content-Type\<close>, ...) are not.
\<close>

record message =
  http_method :: string
  http_url :: string
  http_headers :: "(string \<times> string) list"
  http_body :: "json option"

text \<open>
  A reply's body is either text that \<open>Response.json()\<close> decodes, kept as the value it
  decodes to, or text that it does not decode, kept as it is. Its \<open>Location\<close> header, when
  it has one, is kept as the URL that the library resolves it to against the URL of the
  request.
\<close>

datatype body = Json json | Not_json string

record response =
  status_code :: nat
  location :: "string option"
  content :: body

text \<open>
  The exceptions that can leave \<open>notify\<close>: \<open>TypeError\<close> from the call itself;
  \<open>MissingSchema\<close>, \<open>InvalidURL\<close>, \<open>InvalidSchema\<close>, \<open>ConnectionError\<close>, \<open>Timeout\<close> and
  \<open>TooManyRedirects\<close> from \<open>requests.post\<close>; \<open>HTTPError\<close> (which holds the reply) from
  \<open>raise_for_status\<close>; \<open>JSONDecodeError\<close> from \<open>Response.json\<close>.
\<close>

datatype error =
    TypeError
  | MissingSchema
  | InvalidURL
  | InvalidSchema
  | ConnectionError
  | Timeout
  | TooManyRedirects
  | HTTPError response
  | JSONDecodeError

text \<open>
  What becomes of a message. The library refuses its URL before anything is sent (no
  scheme, no host, or a scheme it has no adapter for), or it gives the message to a
  connection and the service cannot be reached, is silent, or replies.
\<close>

datatype url_problem = No_scheme | No_host | No_adapter

datatype service_behaviour = Refused url_problem | Unreachable | Silent | Replies response

definition url_error :: "url_problem \<Rightarrow> error" where
  "url_error p = (case p of No_scheme \<Rightarrow> MissingSchema | No_host \<Rightarrow> InvalidURL | No_adapter \<Rightarrow> InvalidSchema)"

text \<open>
  The world outside \<open>notify\<close>. \<open>sent\<close> holds the requests handed to \<open>requests.post\<close>,
  \<open>wire\<close> the messages that the library tried to send over a connection, whether or not
  the service could be reached, both oldest first.
  \<open>netrc\<close> is the \<open>Authorization\<close> value that the library makes from the user's netrc
  entry for the host of a URL, \<open>url_auth\<close> the one it makes from credentials written in
  the URL itself, and \<open>should_strip_auth\<close> the library's function of that name on the
  URLs before and after a redirect; the three are taken as they are.
\<close>

record world =
  clock :: "nat \<Rightarrow> instant"
  reads :: nat
  service :: "message \<Rightarrow> service_behaviour"
  netrc :: "string \<Rightarrow> string option"
  url_auth :: "string \<Rightarrow> string option"
  should_strip_auth :: "string \<Rightarrow> string \<Rightarrow> bool"
  sent :: "request list"
  wire :: "message list"

text \<open>Each look at the clock is a later reading than the one before.\<close>

definition read_clock :: "world \<Rightarrow> instant \<times> world" where
  "read_clock w = (clock w (reads w), w\<lparr>reads := Suc (reads w)\<rparr>)"

text \<open>
  \<open>Session.prepare_request\<close>: the first message of a call. Credentials that the library
  finds for the URL, in the netrc file or else in the URL, replace the caller's
  \<open>Authorization\<close> header.
\<close>

definition prepare_request ::
  "(string \<Rightarrow> string option) \<Rightarrow> (string \<Rightarrow> string option) \<Rightarrow> request \<Rightarrow> message"
where
  "prepare_request nrc uauth req =
     \<lparr>http_method = verb req,
      http_url = url req,
      http_headers =
        (case nrc (url req) of
           Some a \<Rightarrow> AList.update ''Authorization'' a (headers req)
         | None \<Rightarrow>
             (case uauth (url req) of
                Some a \<Rightarrow> AList.update ''Authorization'' a (headers req)
              | None \<Rightarrow> headers req)),
      http_body = Some (json_body req)\<rparr>"

text \<open>
  Following a redirect (\<open>Session.resolve_redirects\<close>). A reply is a redirect when it has
  a \<open>Location\<close> header and one of five status codes. The next message goes to the target;
  its method is \<open>GET\<close> after 303 and 302, and after 301 when it was \<open>POST\<close>; it keeps its
  body only after 307 and 308; its \<open>Authorization\<close> header is dropped when
  \<open>should_strip_auth\<close> says so and set from the netrc entry of the new host when there is
  one.
\<close>

definition REDIRECT_STATI :: "nat list" where
  "REDIRECT_STATI = [301, 302, 303, 307, 308]"

definition is_redirect :: "response \<Rightarrow> bool" where
  "is_redirect resp = (location resp \<noteq> None \<and> status_code resp \<in> set REDIRECT_STATI)"

definition get_redirect_target :: "response \<Rightarrow> string option" where
  "get_redirect_target resp = (if is_redirect resp then location resp else None)"

definition rebuild_method :: "string \<Rightarrow> nat \<Rightarrow> string" where
  "rebuild_method m status =
     (let m1 = (if status = 303 \<and> m \<noteq> ''HEAD'' then ''GET'' else m);
          m2 = (if status = 302 \<and> m1 \<noteq> ''HEAD'' then ''GET'' else m1)
      in if status = 301 \<and> m2 = ''POST'' then ''GET'' else m2)"

definition rebuild_auth ::
  "(string \<Rightarrow> string option) \<Rightarrow> (string \<Rightarrow> string \<Rightarrow> bool) \<Rightarrow> string \<Rightarrow> string \<Rightarrow>
   (string \<times> string) list \<Rightarrow> (string \<times> string) list"
where
  "rebuild_auth nrc strip old_url new_url hs =
     (let hs' = (if ''Authorization'' \<in> fst ` set hs \<and> strip old_url new_url
                 then AList.delete ''Authorization'' hs else hs)
      in case nrc new_url of None \<Rightarrow> hs' | Some a \<Rightarrow> AList.update ''Authorization'' a hs')"

definition redirected ::
  "(string \<Rightarrow> string option) \<Rightarrow> (string \<Rightarrow> string \<Rightarrow> bool) \<Rightarrow> message \<Rightarrow> response \<Rightarrow> string \<Rightarrow> message"
where
  "redirected nrc strip m resp target =
     \<lparr>http_method = rebuild_method (http_method m) (status_code resp),
      http_url = target,
      http_headers = rebuild_auth nrc strip (http_url m) target (http_headers m),
      http_body = (if status_code resp = 307 \<or> status_code resp = 308 then http_body m else None)\<rparr>"

text \<open>
  \<open>Session.send\<close> with its redirects: the outcome of a message and the messages given to
  a connection on the way. \<open>left\<close> counts the redirects that may still be followed, 30
  at the start; the redirect after those raises \<open>TooManyRedirects\<close>. With a timeout the
  library gives up on a silent service and raises \<open>Timeout\<close>; without one it waits for
  ever, which is the outcome \<open>None\<close>.
\<close>

fun deliver ::
  "(message \<Rightarrow> service_behaviour) \<Rightarrow> (string \<Rightarrow> string option) \<Rightarrow> (string \<Rightarrow> string \<Rightarrow> bool) \<Rightarrow>
   nat \<Rightarrow> nat option \<Rightarrow> message \<Rightarrow> (error + response) option \<times> message list"
where
  "deliver srv nrc strip left t m =
     (case srv m of
        Refused p \<Rightarrow> (Some (Inl (url_error p)), [])
      | Unreachable \<Rightarrow> (Some (Inl ConnectionError), [m])
      | Silent \<Rightarrow> (case t of None \<Rightarrow> (None, [m]) | Some s \<Rightarrow> (Some (Inl Timeout), [m]))
      | Replies resp \<Rightarrow>
          (case get_redirect_target resp of
             None \<Rightarrow> (Some (Inr resp), [m])
           | Some target \<Rightarrow>
               (case left of
                  0 \<Rightarrow> (Some (Inl TooManyRedirects), [m])
                | Suc k \<Rightarrow>
                    (let (r, ms) = deliver srv nrc strip k t (redirected nrc strip m resp target)
                     in (r, m # ms)))))"

declare deliver.simps [simp del]

definition DEFAULT_REDIRECT_LIMIT :: nat where
  "DEFAULT_REDIRECT_LIMIT = 30"

text \<open>\<open>requests.post\<close>: a fresh session prepares the request, sends it and follows redirects.\<close>

definition requests_post :: "request \<Rightarrow> world \<Rightarrow> (error + response) option \<times> world" where
  "requests_post req w =
     (let (r, ms) = deliver (service w) (netrc w) (should_strip_auth w) DEFAULT_REDIRECT_LIMIT
                      (timeout req) (prepare_request (netrc w) (url_auth w) req)
      in (r, w\<lparr>sent := sent w @ [req], wire := wire w @ ms\<rparr>))"

text \<open>\<open>Response.raise_for_status\<close> raises for the 4xx and 5xx status codes and for no other.\<close>

definition raise_for_status :: "response \<Rightarrow> error + unit" where
  "raise_for_status resp =
     (if 400 \<le> status_code resp \<and> status_code resp < 600 then Inl (HTTPError resp) else Inr ())"

definition response_json :: "response \<Rightarrow> error + json" where
  "response_json resp = (case content resp of Json j \<Rightarrow> Inr j | Not_json s \<Rightarrow> Inl JSONDecodeError)"

subsection \<open>The module\<close>

text \<open>The two module constants, read from the process environment when the module loads.\<close>

definition BREAKPOINT_URL :: "(string \<rightharpoonup> string) \<Rightarrow> string" where
  "BREAKPOINT_URL environ =
     (case environ ''BREAKPOINT_URL'' of None \<Rightarrow> ''http://localhost:8080'' | Some u \<Rightarrow> u)"

definition BREAKPOINT_TOKEN :: "(string \<rightharpoonup> string) \<Rightarrow> string" where
  "BREAKPOINT_TOKEN environ =
     (case environ ''BREAKPOINT_API_TOKEN'' of None \<Rightarrow> [] | Some t \<Rightarrow> t)"

text \<open>
  The dictionary passed as \<open>json=\<close>: six items, then \<open>**kwargs\<close>. The clock is read
  twice, first for \<open>id\<close> and then for \<open>timestamp\<close>.
\<close>

definition event :: "json \<Rightarrow> json \<Rightarrow> json \<Rightarrow> dict \<Rightarrow> instant \<Rightarrow> instant \<Rightarrow> dict" where
  "event title event_type priority kwargs t1 t2 =
     dict_display
       [(''id'', JStr (''py-'' @ str_int (now_millis t1))),
        (''event_type'', event_type),
        (''source'', JStr ''python-adapter''),
        (''priority'', priority),
        (''title'', title),
        (''timestamp'', JStr (isoformat (utcnow t2) @ ''Z''))]
       kwargs"

text \<open>The arguments of the call to \<open>requests.post\<close>, the dictionary built.\<close>

definition event_request :: "(string \<rightharpoonup> string) \<Rightarrow> dict \<Rightarrow> request" where
  "event_request environ payload =
     \<lparr>verb = ''POST'',
      url = BREAKPOINT_URL environ @ ''/api/v1/events'',
      headers = [(''Authorization'', ''Bearer '' @ BREAKPOINT_TOKEN environ)],
      json_body = JObj payload,
      timeout = Some 10\<rparr>"

text \<open>The body of \<open>notify\<close>, its parameters bound.\<close>

definition notify_body ::
  "(string \<rightharpoonup> string) \<Rightarrow> json \<Rightarrow> json \<Rightarrow> json \<Rightarrow> dict \<Rightarrow> world \<Rightarrow> (error + json) option \<times> world"
where
  "notify_body environ title event_type priority kwargs w =
     (let (t1, w1) = read_clock w;
          (t2, w2) = read_clock w1;
          (r, w3) = requests_post (event_request environ (event title event_type priority kwargs t1 t2)) w2
      in case r of
           None \<Rightarrow> (None, w3)
         | Some (Inl e) \<Rightarrow> (Some (Inl e), w3)
         | Some (Inr resp) \<Rightarrow>
             (case raise_for_status resp of
                Inl e \<Rightarrow> (Some (Inl e), w3)
              | Inr u \<Rightarrow> (Some (response_json resp), w3)))"

text \<open>
  A call \<open>notify(*args, **named)\<close> against the signature
  \<open>notify(title, event_type="custom", priority="ambient", **kwargs)\<close>. Positional
  arguments fill the three parameters from the left; a keyword that names a parameter
  fills it, unless a positional argument already has, which is a \<open>TypeError\<close>; every
  other keyword is an item of \<open>kwargs\<close>. A call without \<open>title\<close>, with more than three
  positional arguments or with a keyword given twice is a \<open>TypeError\<close> too.
\<close>

definition bind_parameter :: "string \<Rightarrow> json option \<Rightarrow> dict \<Rightarrow> error + json option" where
  "bind_parameter name positional named =
     (case (positional, map_of named name) of
        (Some v, Some v') \<Rightarrow> Inl TypeError
      | (Some v, None) \<Rightarrow> Inr (Some v)
      | (None, kv) \<Rightarrow> Inr kv)"

definition positional_at :: "json list \<Rightarrow> nat \<Rightarrow> json option" where
  "positional_at args i = (if i < length args then Some (args ! i) else None)"

definition parameter_names :: "string list" where
  "parameter_names = [''title'', ''event_type'', ''priority'']"

definition bind_arguments :: "json list \<Rightarrow> dict \<Rightarrow> error + (json \<times> json \<times> json \<times> dict)" where
  "bind_arguments args named =
     (if 3 < length args \<or> \<not> distinct (map fst named) then Inl TypeError
      else case bind_parameter ''title'' (positional_at args 0) named of
        Inl e \<Rightarrow> Inl e
      | Inr None \<Rightarrow> Inl TypeError
      | Inr (Some title) \<Rightarrow>
          (case bind_parameter ''event_type'' (positional_at args 1) named of
             Inl e \<Rightarrow> Inl e
           | Inr et \<Rightarrow>
               (case bind_parameter ''priority'' (positional_at args 2) named of
                  Inl e \<Rightarrow> Inl e
                | Inr pr \<Rightarrow>
                    Inr (title,
                         (case et of None \<Rightarrow> JStr ''custom'' | Some v \<Rightarrow> v),
                         (case pr of None \<Rightarrow> JStr ''ambient'' | Some v \<Rightarrow> v),
                         filter (\<lambda>kv. fst kv \<notin> set parameter_names) named))))"

definition notify ::
  "(string \<rightharpoonup> string) \<Rightarrow> json list \<Rightarrow> dict \<Rightarrow> world \<Rightarrow> (error + json) option \<times> world"
where
  "notify environ args named w =
     (case bind_arguments args named of
        Inl e \<Rightarrow> (Some (Inl e), w)
      | Inr (title, event_type, priority, kwargs) \<Rightarrow>
          notify_body environ title event_type priority kwargs w)"

subsection \<open>Observations and example worlds\<close>

text \<open>\<open>d.get(k)\<close> on a decoded document; nothing for a document that is not an object.\<close>

definition field :: "string \<Rightarrow> json \<Rightarrow> json option" where
  "field k j = (case j of JObj d \<Rightarrow> map_of d k | _ \<Rightarrow> None)"

text \<open>The documents handed to \<open>requests.post\<close> so far, oldest first.\<close>

definition payloads :: "world \<Rightarrow> json list" where
  "payloads w = map json_body (sent w)"

definition example_utc :: datetime where
  "example_utc = \<lparr>year = 2023, month = 11, day = 14, hour = 22, minute = 13, second = 20,
                   microsecond = 0\<rparr>"

text \<open>A clock that advances one millisecond between readings, and one that does not advance.\<close>

definition ticking_clock :: "nat \<Rightarrow> instant" where
  "ticking_clock n =
     \<lparr>now_millis = 1700000000000 + int n, utcnow = example_utc\<lparr>microsecond := 1000 * n\<rparr>\<rparr>"

definition frozen_clock :: "nat \<Rightarrow> instant" where
  "frozen_clock n = \<lparr>now_millis = 1700000000000, utcnow = example_utc\<rparr>"

text \<open>
  A clock that is set back while it is read (its readings 1 and 3 are 3 ms and 1 ms past
  the second), and one that advances a quarter of a millisecond between readings from a
  whole second on.
\<close>

definition rewound_clock :: "nat \<Rightarrow> instant" where
  "rewound_clock n =
     \<lparr>now_millis = 1700000000004 - int n, utcnow = example_utc\<lparr>microsecond := 1000 * (4 - n)\<rparr>\<rparr>"

definition whole_second_clock :: "nat \<Rightarrow> instant" where
  "whole_second_clock n =
     \<lparr>now_millis = 1700000000000, utcnow = example_utc\<lparr>microsecond := 250 * (n - 1)\<rparr>\<rparr>"

definition acknowledgment :: json where
  "acknowledgment = JObj [(''accepted'', JNum 1), (''event_ids'', JArr [JStr ''abc''])]"

definition replying :: "nat \<Rightarrow> body \<Rightarrow> message \<Rightarrow> service_behaviour" where
  "replying status b m = Replies \<lparr>status_code = status, location = None, content = b\<rparr>"

definition silent :: "message \<Rightarrow> service_behaviour" where
  "silent m = Silent"

text \<open>
  A service that has moved: it answers a message for the default URL with a redirect of
  the given status to another path on the same host, and any other message with the
  given reply.
\<close>

definition moved :: "nat \<Rightarrow> response \<Rightarrow> message \<Rightarrow> service_behaviour" where
  "moved status final m =
     (if http_url m = ''http://localhost:8080/api/v1/events''
      then Replies \<lparr>status_code = status, location = Some ''http://localhost:8080/v2/events'',
                    content = Not_json []\<rparr>
      else Replies final)"

text \<open>A world with no requests made yet, no credentials in netrc or URL, and one host.\<close>

definition fresh_world :: "(nat \<Rightarrow> instant) \<Rightarrow> (message \<Rightarrow> service_behaviour) \<Rightarrow> world" where
  "fresh_world c s =
     \<lparr>clock = c, reads = 0, service = s, netrc = (\<lambda>u. None), url_auth = (\<lambda>u. None),
      should_strip_auth = (\<lambda>old new. False), sent = [], wire = []\<rparr>"



subsection \<open>Reading decimal text and comparing datetimes\<close>

text \<open>The number that a string of decimal digits denotes.\<close>

definition digit_value :: "char \<Rightarrow> nat" where
  "digit_value c = length (takeWhile (\<lambda>x. x \<noteq> c) ''0123456789'')"

definition decimal_value :: "string \<Rightarrow> nat" where
  "decimal_value s = foldl (\<lambda>a c. 10 * a + digit_value c) 0 s"

text \<open>
  The field ranges that every \<open>datetime\<close> object satisfies, and the comparison of two
  of them: their fields as tuples, in lexicographic order.
\<close>

definition valid_datetime :: "datetime \<Rightarrow> bool" where
  "valid_datetime d =
     (1 \<le> year d \<and> year d \<le> 9999 \<and> 1 \<le> month d \<and> month d \<le> 12 \<and> 1 \<le> day d \<and> day d \<le> 31 \<and>
      hour d < 24 \<and> minute d < 60 \<and> second d < 60 \<and> microsecond d < 1000000)"

fun tuple_le :: "nat list \<Rightarrow> nat list \<Rightarrow> bool" where
  "tuple_le [] ys = True"
| "tuple_le (x # xs) [] = False"
| "tuple_le (x # xs) (y # ys) = (x < y \<or> (x = y \<and> tuple_le xs ys))"

definition datetime_le :: "datetime \<Rightarrow> datetime \<Rightarrow> bool" where
  "datetime_le d d' =
     tuple_le [year d, month d, day d, hour d, minute d, second d, microsecond d]
              [year d', month d', day d', hour d', minute d', second d', microsecond d']"

text \<open>The comparison \<open><=\<close> of two strings: character by character, by code point.\<close>

definition text_le :: "string \<Rightarrow> string \<Rightarrow> bool" where
  "text_le s s' = tuple_le (map of_char s) (map of_char s')"

section \<open>Properties\<close>

subsection \<open>Dictionaries\<close>

lemma map_of_dict_update: "map_of (dict_update d kvs) = map_of d ++ map_of (rev kvs)"
proof (induction kvs arbitrary: d)
  case Nil
  then show ?case by simp
next
  case (Cons kv kvs)
  obtain k v where kv: "kv = (k, v)" by (cases kv)
  have "map_of (dict_update d (kv # kvs)) = map_of (AList.update k v d) ++ map_of (rev kvs)"
    using Cons.IH [of "AList.update k v d"] by (simp add: kv)
  also have "\<dots> = map_of d ++ map_of (rev (kv # kvs))"
    by (simp add: kv update_conv' map_add_upd_left)
  finally show ?case .
qed

lemma map_of_rev_distinct: "distinct (map fst kvs) \<Longrightarrow> map_of (rev kvs) = map_of kvs"
  using map_of_inject_set [of "rev kvs" kvs] by (simp add: rev_map [symmetric])

lemma dict_update_lookup:
  assumes "distinct (map fst kvs)"
  shows "map_of (dict_update d kvs) k = (case map_of kvs k of None \<Rightarrow> map_of d k | Some v \<Rightarrow> Some v)"
  by (simp add: map_of_dict_update map_of_rev_distinct [OF assms] map_add_def)



lemma event_lookup:
  assumes "distinct (map fst kwargs)"
  shows "map_of (event title event_type priority kwargs t1 t2) k =
     (case map_of kwargs k of
        Some v \<Rightarrow> Some v
      | None \<Rightarrow>
          map_of [(''id'', JStr (''py-'' @ str_int (now_millis t1))),
                  (''event_type'', event_type),
                  (''source'', JStr ''python-adapter''),
                  (''priority'', priority),
                  (''title'', title),
                  (''timestamp'', JStr (isoformat (utcnow t2) @ ''Z''))] k)"
  unfolding event_def dict_display_def
  by (simp add: dict_update_lookup [OF assms] split: option.splits)



subsection \<open>Binding the arguments\<close>

lemma bind_parameter_cases:
  assumes "bind_parameter name positional named = Inr r"
  shows "(positional = None \<and> r = map_of named name) \<or>
         (positional = r \<and> r \<noteq> None \<and> map_of named name = None)"
  using assms by (auto simp: bind_parameter_def split: option.splits)

lemma bind_arguments_kwargs:
  assumes "bind_arguments args named = Inr (title, event_type, priority, kwargs)"
  shows "kwargs = filter (\<lambda>kv. fst kv \<notin> set parameter_names) named"
    and "distinct (map fst named)"
    and "length args \<le> 3"
  using assms by (auto simp: bind_arguments_def split: if_splits sum.splits option.splits)

lemma bind_arguments_distinct:
  assumes "bind_arguments args named = Inr (title, event_type, priority, kwargs)"
  shows "distinct (map fst kwargs)"
  using bind_arguments_kwargs [OF assms] by (simp add: distinct_map_filter)

lemma kwargs_lookup:
  assumes "bind_arguments args named = Inr (title, event_type, priority, kwargs)"
  shows "map_of kwargs k = (if k \<in> set parameter_names then None else map_of named k)"
  using bind_arguments_kwargs(1) [OF assms]
    map_of_filter [of "\<lambda>k. k \<notin> set parameter_names" named]
  by (simp add: restrict_map_def)

lemma bind_arguments_parameters:
  assumes "bind_arguments args named = Inr (title, event_type, priority, kwargs)"
  shows "bind_parameter ''title'' (positional_at args 0) named = Inr (Some title)"
    and "\<exists>et. bind_parameter ''event_type'' (positional_at args 1) named = Inr et \<and>
           event_type = (case et of None \<Rightarrow> JStr ''custom'' | Some v \<Rightarrow> v)"
    and "\<exists>pr. bind_parameter ''priority'' (positional_at args 2) named = Inr pr \<and>
           priority = (case pr of None \<Rightarrow> JStr ''ambient'' | Some v \<Rightarrow> v)"
  using assms by (auto simp: bind_arguments_def split: if_splits sum.splits option.splits)

text \<open>A parameter given both by position and by name: the call raises, nothing is sent.\<close>

lemma title_given_twice:
  assumes "positional_at args 0 = Some t" and "map_of named ''title'' = Some t'"
  shows "notify environ args named w = (Some (Inl TypeError), w)"
  using assms by (simp add: notify_def bind_arguments_def bind_parameter_def)

subsection \<open>The HTTP library\<close>



lemma deliver_silent:
  "srv m = Silent \<Longrightarrow> deliver srv nrc strip left (Some s) m = (Some (Inl Timeout), [m])"
  by (subst deliver.simps) simp

lemma deliver_reply:
  "srv m = Replies resp \<Longrightarrow> \<not> is_redirect resp \<Longrightarrow>
     deliver srv nrc strip left t m = (Some (Inr resp), [m])"
  by (subst deliver.simps) (simp add: get_redirect_target_def)








subsection \<open>One call\<close>

lemma notify_body_sent:
  "sent (snd (notify_body environ title event_type priority kwargs w)) =
     sent w @ [event_request environ
                 (event title event_type priority kwargs (clock w (reads w)) (clock w (Suc (reads w))))]"
  by (simp add: notify_body_def read_clock_def requests_post_def Let_def
      split: prod.splits sum.splits option.splits)

lemma notify_body_outcome:
  "fst (notify_body environ title event_type priority kwargs w) =
     (case fst (deliver (service w) (netrc w) (should_strip_auth w) DEFAULT_REDIRECT_LIMIT (Some 10)
                 (prepare_request (netrc w) (url_auth w) (event_request environ
                    (event title event_type priority kwargs (clock w (reads w))
                       (clock w (Suc (reads w))))))) of
        None \<Rightarrow> None
      | Some (Inl e) \<Rightarrow> Some (Inl e)
      | Some (Inr resp) \<Rightarrow>
          (if 400 \<le> status_code resp \<and> status_code resp < 600 then Some (Inl (HTTPError resp))
           else Some (response_json resp)))"
  by (simp add: notify_body_def read_clock_def requests_post_def raise_for_status_def Let_def
      event_request_def split: prod.splits sum.splits option.splits)


lemma notify_body_world:
  "clock (snd (notify_body environ title event_type priority kwargs w)) = clock w"
  "service (snd (notify_body environ title event_type priority kwargs w)) = service w"
  "reads (snd (notify_body environ title event_type priority kwargs w)) = Suc (Suc (reads w))"
  by (simp_all add: notify_body_def read_clock_def requests_post_def Let_def
      split: prod.splits sum.splits option.splits)

text \<open>A reply with a 2xx status is not a redirect.\<close>

lemma success_not_redirect:
  "200 \<le> status_code resp \<Longrightarrow> status_code resp < 300 \<Longrightarrow> \<not> is_redirect resp"
  by (auto simp: is_redirect_def REDIRECT_STATI_def)

lemma notify_bound:
  assumes "bind_arguments args named = Inr (title, event_type, priority, kwargs)"
  shows "notify environ args named w = notify_body environ title event_type priority kwargs w"
  by (simp add: notify_def assms)

lemma notify_world:
  assumes "bind_arguments args named = Inr b"
  shows "clock (snd (notify environ args named w)) = clock w \<and>
         reads (snd (notify environ args named w)) = Suc (Suc (reads w))"
proof -
  obtain title event_type priority kwargs where b: "b = (title, event_type, priority, kwargs)"
    by (cases b)
  show ?thesis
    by (simp add: notify_bound [OF assms [unfolded b]] notify_body_world)
qed

lemma last_payload:
  assumes "bind_arguments args named = Inr (title, event_type, priority, kwargs)"
  shows "last (payloads (snd (notify environ args named w))) =
     JObj (event title event_type priority kwargs (clock w (reads w)) (clock w (Suc (reads w))))"
  by (simp add: notify_bound [OF assms] payloads_def notify_body_sent event_request_def)

lemma payload_field:
  assumes "bind_arguments args named = Inr (title, event_type, priority, kwargs)"
  shows "field k (last (payloads (snd (notify environ args named w)))) =
     (case map_of kwargs k of
        Some v \<Rightarrow> Some v
      | None \<Rightarrow>
          map_of [(''id'', JStr (''py-'' @ str_int (now_millis (clock w (reads w))))),
                  (''event_type'', event_type),
                  (''source'', JStr ''python-adapter''),
                  (''priority'', priority),
                  (''title'', title),
                  (''timestamp'', JStr (isoformat (utcnow (clock w (Suc (reads w)))) @ ''Z''))] k)"
  by (simp only: last_payload [OF assms] field_def json.case
      event_lookup [OF bind_arguments_distinct [OF assms]])

lemma generated_id:
  assumes "bind_arguments args named = Inr b" and "map_of named ''id'' = None"
  shows "field ''id'' (last (payloads (snd (notify environ args named w)))) =
     Some (JStr (''py-'' @ str_int (now_millis (clock w (reads w)))))"
proof -
  obtain title event_type priority kwargs where b: "b = (title, event_type, priority, kwargs)"
    by (cases b)
  note bound = assms(1) [unfolded b]
  have "map_of kwargs ''id'' = None"
    using assms(2) by (simp add: kwargs_lookup [OF bound])
  then show ?thesis
    by (simp add: payload_field [OF bound])
qed

lemma generated_timestamp:
  assumes "bind_arguments args named = Inr b" and "map_of named ''timestamp'' = None"
  shows "field ''timestamp'' (last (payloads (snd (notify environ args named w)))) =
     Some (JStr (isoformat (utcnow (clock w (Suc (reads w)))) @ ''Z''))"
proof -
  obtain title event_type priority kwargs where b: "b = (title, event_type, priority, kwargs)"
    by (cases b)
  note bound = assms(1) [unfolded b]
  have "map_of kwargs ''timestamp'' = None"
    using assms(2) by (simp add: kwargs_lookup [OF bound])
  then show ?thesis
    by (simp add: payload_field [OF bound])
qed



subsection \<open>Decimal text\<close>

lemma digit_cases:
  "n < (10::nat) \<Longrightarrow>
     n = 0 \<or> n = 1 \<or> n = 2 \<or> n = 3 \<or> n = 4 \<or> n = 5 \<or> n = 6 \<or> n = 7 \<or> n = 8 \<or> n = 9"
  by presburger

lemma digit_value_digit_char: "n < 10 \<Longrightarrow> digit_value (digit_char n) = n"
  using digit_cases [of n] by (auto simp: digit_value_def digit_char_def)

lemma digit_char_not_minus: "n < 10 \<Longrightarrow> digit_char n \<noteq> CHR ''-''"
  using digit_cases [of n] by (auto simp: digit_char_def)

lemma decimal_value_snoc: "decimal_value (s @ [c]) = 10 * decimal_value s + digit_value c"
  by (simp add: decimal_value_def)

lemma decimal_value_str_nat: "decimal_value (str_nat n) = n"
proof (induction n rule: str_nat.induct)
  case (1 n)
  show ?case
  proof (cases "n < 10")
    case True
    then show ?thesis
      by (subst str_nat.simps) (simp add: decimal_value_def digit_value_digit_char)
  next
    case False
    then have "decimal_value (str_nat (n div 10)) = n div 10"
      using "1.IH" by simp
    then show ?thesis
      using False
      by (subst str_nat.simps) (simp add: decimal_value_snoc digit_value_digit_char)
  qed
qed

lemma str_nat_inj: "str_nat m = str_nat n \<Longrightarrow> m = n"
  by (metis decimal_value_str_nat)

lemma str_nat_not_Nil: "str_nat n \<noteq> []"
  by (subst str_nat.simps) simp

lemma hd_str_nat_not_minus: "hd (str_nat n) \<noteq> CHR ''-''"
proof (induction n rule: str_nat.induct)
  case (1 n)
  show ?case
  proof (cases "n < 10")
    case True
    then show ?thesis
      by (subst str_nat.simps) (simp add: digit_char_not_minus)
  next
    case False
    then show ?thesis
      using "1.IH" str_nat_not_Nil [of "n div 10"]
      by (subst str_nat.simps) simp
  qed
qed

lemma str_int_inj: "str_int i = str_int j \<Longrightarrow> i = j"
proof -
  assume eq: "str_int i = str_int j"
  have neg_pos: False if "a < 0" "\<not> b < 0" "str_int a = str_int b" for a b
  proof -
    have "CHR ''-'' # str_nat (nat (- a)) = str_nat (nat b)"
      using that by (simp add: str_int_def)
    then have "hd (str_nat (nat b)) = CHR ''-''"
      by (metis list.sel(1))
    then show False
      using hd_str_nat_not_minus by blast
  qed
  show "i = j"
  proof (cases "i < 0"; cases "j < 0")
    assume "i < 0" "j < 0"
    then show ?thesis
      using eq str_nat_inj [of "nat (- i)" "nat (- j)"] by (simp add: str_int_def)
  next
    assume "i < 0" "\<not> j < 0"
    then show ?thesis using neg_pos [of i j] eq by simp
  next
    assume "\<not> i < 0" "j < 0"
    then show ?thesis using neg_pos [of j i] eq by simp
  next
    assume "\<not> i < 0" "\<not> j < 0"
    then show ?thesis
      using eq str_nat_inj [of "nat i" "nat j"] by (simp add: str_int_def)
  qed
qed

lemma decimal_value_zeros: "decimal_value (replicate k (CHR ''0'') @ s) = decimal_value s"
proof -
  have "foldl (\<lambda>a c. 10 * a + digit_value c) 0 (replicate k (CHR ''0'')) = 0"
    by (induction k) (simp_all add: digit_value_def)
  then show ?thesis
    by (simp add: decimal_value_def)
qed

lemma decimal_value_zero_pad: "decimal_value (zero_pad w n) = n"
  by (simp add: zero_pad_def decimal_value_zeros decimal_value_str_nat)

lemma length_str_nat: "0 < w \<Longrightarrow> n < 10 ^ w \<Longrightarrow> length (str_nat n) \<le> w"
proof (induction n arbitrary: w rule: str_nat.induct)
  case (1 n)
  show ?case
  proof (cases "n < 10")
    case True
    then show ?thesis
      using "1.prems" by (subst str_nat.simps) simp
  next
    case False
    obtain v where w: "w = Suc v" using "1.prems"(1) by (cases w) auto
    have "0 < v"
      using False "1.prems"(2) w by (cases v) auto
    moreover have "n div 10 < 10 ^ v"
      using "1.prems"(2) w by (simp add: less_mult_imp_div_less mult.commute)
    ultimately have "length (str_nat (n div 10)) \<le> v"
      using "1.IH" [OF False] by simp
    then show ?thesis
      using False w by (subst str_nat.simps) simp
  qed
qed

lemma length_zero_pad: "0 < w \<Longrightarrow> n < 10 ^ w \<Longrightarrow> length (zero_pad w n) = w"
  using length_str_nat [of w n] by (simp add: zero_pad_def)

lemma zero_pad_inj: "zero_pad w m = zero_pad w n \<Longrightarrow> m = n"
  by (metis decimal_value_zero_pad)

lemma valid_datetime_lengths:
  assumes "valid_datetime d"
  shows "length (zero_pad 4 (year d)) = 4" "length (zero_pad 2 (month d)) = 2"
    "length (zero_pad 2 (day d)) = 2" "length (zero_pad 2 (hour d)) = 2"
    "length (zero_pad 2 (minute d)) = 2" "length (zero_pad 2 (second d)) = 2"
    "length (zero_pad 6 (microsecond d)) = 6"
  using assms by (simp_all add: valid_datetime_def length_zero_pad)

lemma isoformat_inj:
  assumes "valid_datetime d" and "valid_datetime d'" and "isoformat d = isoformat d'"
  shows "d = d'"
proof -
  note len = valid_datetime_lengths [OF assms(1)] valid_datetime_lengths [OF assms(2)]
  define t where "t = (if microsecond d = 0 then [] else ''.'' @ zero_pad 6 (microsecond d))"
  define t' where "t' = (if microsecond d' = 0 then [] else ''.'' @ zero_pad 6 (microsecond d'))"
  have iso: "isoformat d =
      zero_pad 4 (year d) @ ''-'' @ zero_pad 2 (month d) @ ''-'' @ zero_pad 2 (day d) @ ''T'' @
      zero_pad 2 (hour d) @ '':'' @ zero_pad 2 (minute d) @ '':'' @ zero_pad 2 (second d) @ t"
    by (simp add: isoformat_def t_def)
  have iso': "isoformat d' =
      zero_pad 4 (year d') @ ''-'' @ zero_pad 2 (month d') @ ''-'' @ zero_pad 2 (day d') @ ''T'' @
      zero_pad 2 (hour d') @ '':'' @ zero_pad 2 (minute d') @ '':'' @ zero_pad 2 (second d') @ t'"
    by (simp add: isoformat_def t'_def)
  have parts: "zero_pad 4 (year d) = zero_pad 4 (year d') \<and>
      zero_pad 2 (month d) = zero_pad 2 (month d') \<and>
      zero_pad 2 (day d) = zero_pad 2 (day d') \<and>
      zero_pad 2 (hour d) = zero_pad 2 (hour d') \<and>
      zero_pad 2 (minute d) = zero_pad 2 (minute d') \<and>
      zero_pad 2 (second d) = zero_pad 2 (second d') \<and> t = t'"
    using assms(3) by (simp add: iso iso' len)
  have "microsecond d = microsecond d'"
  proof (cases "microsecond d = 0"; cases "microsecond d' = 0")
    assume "microsecond d \<noteq> 0" "microsecond d' \<noteq> 0"
    then have "zero_pad 6 (microsecond d) = zero_pad 6 (microsecond d')"
      using parts by (simp add: t_def t'_def)
    then show ?thesis by (rule zero_pad_inj)
  qed (use parts in \<open>simp_all add: t_def t'_def\<close>)
  with parts show ?thesis
    by (auto intro!: datetime.equality dest: zero_pad_inj)
qed

subsection \<open>Evaluating the examples\<close>

lemma replicate_numeral: "replicate (numeral k) x = x # replicate (pred_numeral k) x"
  by (simp add: numeral_eq_Suc)

lemmas run_simps =
  notify_def bind_arguments_def bind_parameter_def positional_at_def parameter_names_def
  notify_body_def read_clock_def requests_post_def raise_for_status_def response_json_def
  event_request_def event_def dict_display_def field_def payloads_def fresh_world_def
  replying_def silent_def moved_def deliver.simps prepare_request_def get_redirect_target_def
  is_redirect_def REDIRECT_STATI_def DEFAULT_REDIRECT_LIMIT_def redirected_def rebuild_method_def
  rebuild_auth_def url_error_def BREAKPOINT_URL_def BREAKPOINT_TOKEN_def

lemmas bind_simps = bind_arguments_def bind_parameter_def positional_at_def parameter_names_def

lemmas text_simps = str_int_def str_nat.simps digit_char_def zero_pad_def isoformat_def
  replicate_numeral

section \<open>The claims\<close>

subsection \<open>Extra keywords and the six event keys\<close>

text \<open>
  A call that passes \<open>id="mine"\<close> sends \<open>"mine"\<close> as the event's id, not the id made
  from the clock.
\<close>

theorem reserved_id_overridden_counterexample:
  "field ''id'' (last (payloads (snd (notify Map.empty [JStr ''Deploy finished'']
      [(''id'', JStr ''mine'')] (fresh_world frozen_clock (replying 200 (Json acknowledgment)))))))
     = Some (JStr ''mine'') \<and>
   JStr ''mine'' \<noteq> JStr (''py-'' @ str_int (now_millis (frozen_clock 0)))"
  by (simp add: run_simps)

text \<open>
  Claim C1, as the code has it. The dictionary display ends with \<open>**kwargs\<close>, so an
  extra keyword replaces the item of the same name: a caller's \<open>id\<close>, \<open>source\<close> or
  \<open>timestamp\<close> is what the sent document holds. The names \<open>title\<close>, \<open>event_type\<close>
  and \<open>priority\<close> are parameters and never keys of \<open>kwargs\<close>, so for them the document
  holds the parameter's value. Every item of \<open>kwargs\<close> is in the document as the caller
  gave it.
\<close>

theorem extension_fields_precedence:
  assumes "bind_arguments args named = Inr (title, event_type, priority, kwargs)"
  shows "field ''title'' (last (payloads (snd (notify environ args named w)))) = Some title \<and>
         field ''event_type'' (last (payloads (snd (notify environ args named w)))) = Some event_type \<and>
         field ''priority'' (last (payloads (snd (notify environ args named w)))) = Some priority \<and>
         set parameter_names \<inter> fst ` set kwargs = {} \<and>
         (\<forall>k v. (k, v) \<in> set kwargs \<longrightarrow>
            field k (last (payloads (snd (notify environ args named w)))) = Some v) \<and>
         (\<forall>k v. k \<in> {''id'', ''source'', ''timestamp''} \<and> map_of named k = Some v \<longrightarrow>
            field k (last (payloads (snd (notify environ args named w)))) = Some v)"
proof -
  note bound = assms
  have params: "map_of kwargs ''title'' = None" "map_of kwargs ''event_type'' = None"
    "map_of kwargs ''priority'' = None"
    by (simp_all add: kwargs_lookup [OF bound] parameter_names_def)
  have disjoint: "set parameter_names \<inter> fst ` set kwargs = {}"
    using bind_arguments_kwargs(1) [OF bound] by auto
  have items: "field k (last (payloads (snd (notify environ args named w)))) = Some v"
    if "(k, v) \<in> set kwargs" for k v
  proof -
    have "map_of kwargs k = Some v"
      using that bind_arguments_distinct [OF bound] by simp
    then show ?thesis by (simp add: payload_field [OF bound])
  qed
  have reserved: "field k (last (payloads (snd (notify environ args named w)))) = Some v"
    if "k \<in> {''id'', ''source'', ''timestamp''}" "map_of named k = Some v" for k v
  proof -
    have "map_of kwargs k = Some v"
      using that by (auto simp: kwargs_lookup [OF bound] parameter_names_def)
    then show ?thesis by (simp add: payload_field [OF bound])
  qed
  show ?thesis
    using params disjoint items reserved by (simp add: payload_field [OF bound])
qed

theorem extension_fields_precedence_witness:
  "bind_arguments [JStr ''Deploy finished'']
      [(''priority'', JStr ''urgent''), (''id'', JStr ''mine''), (''body'', JStr ''ok'')] =
     Inr (JStr ''Deploy finished'', JStr ''custom'', JStr ''urgent'',
          [(''id'', JStr ''mine''), (''body'', JStr ''ok'')]) \<and>
   field ''title'' (last (payloads (snd (notify Map.empty [JStr ''Deploy finished'']
      [(''priority'', JStr ''urgent''), (''id'', JStr ''mine''), (''body'', JStr ''ok'')]
      (fresh_world frozen_clock (replying 200 (Json acknowledgment))))))) =
     Some (JStr ''Deploy finished'') \<and>
   field ''priority'' (last (payloads (snd (notify Map.empty [JStr ''Deploy finished'']
      [(''priority'', JStr ''urgent''), (''id'', JStr ''mine''), (''body'', JStr ''ok'')]
      (fresh_world frozen_clock (replying 200 (Json acknowledgment))))))) =
     Some (JStr ''urgent'') \<and>
   field ''id'' (last (payloads (snd (notify Map.empty [JStr ''Deploy finished'']
      [(''priority'', JStr ''urgent''), (''id'', JStr ''mine''), (''body'', JStr ''ok'')]
      (fresh_world frozen_clock (replying 200 (Json acknowledgment))))))) =
     Some (JStr ''mine'')"
proof -
  have b: "bind_arguments [JStr ''Deploy finished'']
      [(''priority'', JStr ''urgent''), (''id'', JStr ''mine''), (''body'', JStr ''ok'')] =
     Inr (JStr ''Deploy finished'', JStr ''custom'', JStr ''urgent'',
          [(''id'', JStr ''mine''), (''body'', JStr ''ok'')])"
    by (simp add: bind_simps)
  show ?thesis
    using b extension_fields_precedence [OF b, of Map.empty
        "fresh_world frozen_clock (replying 200 (Json acknowledgment))"]
    by simp
qed

subsection \<open>The id\<close>

text \<open>Two calls, one after the other, while the clock stands on one millisecond: one id.\<close>

theorem same_millisecond_counterexample:
  "field ''id'' (last (payloads (snd (notify Map.empty [JStr ''build started''] []
      (fresh_world frozen_clock (replying 200 (Json acknowledgment))))))) =
     Some (JStr ''py-1700000000000'') \<and>
   field ''id'' (last (payloads (snd (notify Map.empty [JStr ''build finished''] []
      (snd (notify Map.empty [JStr ''build started''] []
        (fresh_world frozen_clock (replying 200 (Json acknowledgment))))))))) =
     Some (JStr ''py-1700000000000'')"
proof -
  let ?w = "fresh_world frozen_clock (replying 200 (Json acknowledgment))"
  have b: "bind_arguments [JStr ''build started''] [] =
     Inr (JStr ''build started'', JStr ''custom'', JStr ''ambient'', [])"
    and b': "bind_arguments [JStr ''build finished''] [] =
     Inr (JStr ''build finished'', JStr ''custom'', JStr ''ambient'', [])"
    by (simp_all add: bind_simps)
  have n: "map_of ([] :: dict) ''id'' = None"
    by simp
  have digits: "str_int 1700000000000 = ''1700000000000''"
    by (simp add: text_simps)
  have "field ''id'' (last (payloads (snd (notify Map.empty [JStr ''build started''] [] ?w)))) =
      Some (JStr ''py-1700000000000'')"
    using generated_id [OF b n, of Map.empty ?w]
    by (simp add: fresh_world_def frozen_clock_def digits)
  moreover have "field ''id'' (last (payloads (snd (notify Map.empty [JStr ''build finished''] []
      (snd (notify Map.empty [JStr ''build started''] [] ?w)))))) =
      Some (JStr ''py-1700000000000'')"
    using generated_id [OF b' n, of Map.empty "snd (notify Map.empty [JStr ''build started''] [] ?w)"]
      notify_world [OF b, of Map.empty ?w]
    by (simp add: fresh_world_def frozen_clock_def digits)
  ultimately show ?thesis
    by (rule conjI)
qed

text \<open>
  Claim C2, as the code has it. Without an \<open>id\<close> keyword the id is \<open>py-\<close> followed by
  the millisecond reading of the clock, so the ids of two calls made one after the other
  are equal exactly when the two readings are the same millisecond.
\<close>

theorem back_to_back_ids:
  assumes "bind_arguments args named = Inr b"
    and "bind_arguments args' named' = Inr b'"
    and "map_of named ''id'' = None"
    and "map_of named' ''id'' = None"
  shows "field ''id'' (last (payloads (snd (notify environ args named w)))) =
           Some (JStr (''py-'' @ str_int (now_millis (clock w (reads w))))) \<and>
         field ''id'' (last (payloads (snd (notify environ args' named'
             (snd (notify environ args named w)))))) =
           Some (JStr (''py-'' @ str_int (now_millis (clock w (reads w + 2))))) \<and>
         (field ''id'' (last (payloads (snd (notify environ args named w)))) =
          field ''id'' (last (payloads (snd (notify environ args' named'
             (snd (notify environ args named w))))))) =
         (now_millis (clock w (reads w)) = now_millis (clock w (reads w + 2)))"
proof -
  have first: "field ''id'' (last (payloads (snd (notify environ args named w)))) =
      Some (JStr (''py-'' @ str_int (now_millis (clock w (reads w)))))"
    by (rule generated_id [OF assms(1,3)])
  have second: "field ''id'' (last (payloads (snd (notify environ args' named'
             (snd (notify environ args named w)))))) =
      Some (JStr (''py-'' @ str_int (now_millis (clock w (reads w + 2)))))"
    using generated_id [OF assms(2,4), of environ "snd (notify environ args named w)"]
      notify_world [OF assms(1), of environ w]
    by simp
  have "(str_int i = str_int j) = (i = j)" for i j
    using str_int_inj by blast
  then show ?thesis
    by (simp add: first second)
qed

theorem back_to_back_ids_witness:
  "bind_arguments [JStr ''build started''] [] =
     Inr (JStr ''build started'', JStr ''custom'', JStr ''ambient'', []) \<and>
   bind_arguments [JStr ''build finished''] [] =
     Inr (JStr ''build finished'', JStr ''custom'', JStr ''ambient'', []) \<and>
   map_of ([] :: dict) ''id'' = None \<and>
   field ''id'' (last (payloads (snd (notify Map.empty [JStr ''build started''] []
      (fresh_world ticking_clock (replying 200 (Json acknowledgment))))))) =
     Some (JStr ''py-1700000000000'') \<and>
   field ''id'' (last (payloads (snd (notify Map.empty [JStr ''build finished''] []
      (snd (notify Map.empty [JStr ''build started''] []
        (fresh_world ticking_clock (replying 200 (Json acknowledgment))))))))) =
     Some (JStr ''py-1700000000002'')"
proof -
  have b: "bind_arguments [JStr ''build started''] [] =
     Inr (JStr ''build started'', JStr ''custom'', JStr ''ambient'', [])"
    and b': "bind_arguments [JStr ''build finished''] [] =
     Inr (JStr ''build finished'', JStr ''custom'', JStr ''ambient'', [])"
    by (simp_all add: bind_simps)
  have n: "map_of ([] :: dict) ''id'' = None"
    by simp
  have "str_int 1700000000000 = ''1700000000000''" "str_int 1700000000002 = ''1700000000002''"
    by (simp_all add: str_int_def str_nat.simps digit_char_def)
  then show ?thesis
    using b b' back_to_back_ids [OF b b' n n, of Map.empty
        "fresh_world ticking_clock (replying 200 (Json acknowledgment))"]
    by (simp add: fresh_world_def ticking_clock_def)
qed

subsection \<open>The title\<close>

text \<open>
  Claim C3. Whatever value a call passes as \<open>title\<close>, positionally or by name, the
  document that \<open>notify\<close> sends carries exactly that value under the key \<open>title\<close>,
  for every call that binds its arguments.
\<close>

theorem notify_title_unmodified:
  assumes "positional_at args 0 = Some t \<or> map_of named ''title'' = Some t"
    and "bind_arguments args named = Inr b"
  shows "field ''title'' (last (payloads (snd (notify environ args named w)))) = Some t"
proof -
  obtain title event_type priority kwargs where b: "b = (title, event_type, priority, kwargs)"
    by (cases b)
  note bound = assms(2) [unfolded b]
  have "title = t"
    using bind_parameter_cases [OF bind_arguments_parameters(1) [OF bound]] assms(1) by auto
  moreover have "map_of kwargs ''title'' = None"
    by (simp add: kwargs_lookup [OF bound] parameter_names_def)
  ultimately show ?thesis
    by (simp add: payload_field [OF bound])
qed

theorem notify_title_unmodified_witness:
  "(positional_at [JStr ''Deploy finished''] 0 = Some (JStr ''Deploy finished'') \<or>
      map_of [(''body'', JStr ''ok'')] ''title'' = Some (JStr ''Deploy finished'')) \<and>
   bind_arguments [JStr ''Deploy finished''] [(''body'', JStr ''ok'')] =
     Inr (JStr ''Deploy finished'', JStr ''custom'', JStr ''ambient'', [(''body'', JStr ''ok'')]) \<and>
   field ''title'' (last (payloads (snd (notify Map.empty [JStr ''Deploy finished'']
      [(''body'', JStr ''ok'')] (fresh_world frozen_clock (replying 200 (Json acknowledgment)))))))
     = Some (JStr ''Deploy finished'')"
proof -
  have p: "positional_at [JStr ''Deploy finished''] 0 = Some (JStr ''Deploy finished'') \<or>
      map_of [(''body'', JStr ''ok'')] ''title'' = Some (JStr ''Deploy finished'')"
    by (simp add: positional_at_def)
  have b: "bind_arguments [JStr ''Deploy finished''] [(''body'', JStr ''ok'')] =
     Inr (JStr ''Deploy finished'', JStr ''custom'', JStr ''ambient'', [(''body'', JStr ''ok'')])"
    by (simp add: bind_arguments_def bind_parameter_def positional_at_def parameter_names_def)
  show ?thesis
    using p b notify_title_unmodified [OF p b] by simp
qed

subsection \<open>A silent service\<close>

text \<open>
  Claim C4. Against a service that never answers, \<open>notify\<close> returns, and what it returns
  is the \<open>Timeout\<close> exception of \<open>requests.post\<close>: the request it sends carries the
  timeout of 10 seconds, so the library gives up instead of waiting for ever.
\<close>

theorem notify_silent_service_times_out:
  assumes "bind_arguments args named = Inr b"
    and "\<forall>req. service w req = Silent"
  shows "fst (notify environ args named w) = Some (Inl Timeout) \<and>
         timeout (last (sent (snd (notify environ args named w)))) = Some 10"
proof -
  obtain title event_type priority kwargs where b: "b = (title, event_type, priority, kwargs)"
    by (cases b)
  note bound = assms(1) [unfolded b]
  show ?thesis
    using assms(2)
    by (simp add: notify_bound [OF bound] notify_body_outcome deliver_silent notify_body_sent
        event_request_def)
qed

theorem notify_silent_service_times_out_witness:
  "bind_arguments [JStr ''Deploy finished''] [] =
     Inr (JStr ''Deploy finished'', JStr ''custom'', JStr ''ambient'', []) \<and>
   (\<forall>req. service (fresh_world frozen_clock silent) req = Silent) \<and>
   fst (notify Map.empty [JStr ''Deploy finished''] [] (fresh_world frozen_clock silent)) =
     Some (Inl Timeout) \<and>
   timeout (last (sent (snd (notify Map.empty [JStr ''Deploy finished''] []
     (fresh_world frozen_clock silent))))) = Some 10"
proof -
  have b: "bind_arguments [JStr ''Deploy finished''] [] =
     Inr (JStr ''Deploy finished'', JStr ''custom'', JStr ''ambient'', [])"
    by (simp add: bind_simps)
  have s: "\<forall>req. service (fresh_world frozen_clock silent) req = Silent"
    by (simp add: fresh_world_def silent_def)
  show ?thesis
    using b s notify_silent_service_times_out [OF b s, of Map.empty] by simp
qed

subsection \<open>The status code\<close>




subsection \<open>A body that is not JSON\<close>



subsection \<open>The defaults\<close>

text \<open>
  Claim C7. A call that gives neither \<open>event_type\<close> nor \<open>priority\<close> (at most one
  positional argument, neither name among the keywords) sends \<open>"custom"\<close> and
  \<open>"ambient"\<close> under these two keys.
\<close>

theorem notify_defaults:
  assumes "length args \<le> 1"
    and "map_of named ''event_type'' = None"
    and "map_of named ''priority'' = None"
    and "bind_arguments args named = Inr b"
  shows "field ''event_type'' (last (payloads (snd (notify environ args named w)))) = Some (JStr ''custom'') \<and>
         field ''priority'' (last (payloads (snd (notify environ args named w)))) = Some (JStr ''ambient'')"
proof -
  obtain title event_type priority kwargs where b: "b = (title, event_type, priority, kwargs)"
    by (cases b)
  note bound = assms(4) [unfolded b]
  have none: "positional_at args (Suc 0) = None" "positional_at args 2 = None"
    using assms(1) by (simp_all add: positional_at_def)
  have "event_type = JStr ''custom''"
    using bind_arguments_parameters(2) [OF bound] assms(2)
    by (auto simp: none bind_parameter_def)
  moreover have "priority = JStr ''ambient''"
    using bind_arguments_parameters(3) [OF bound] assms(3)
    by (auto simp: none bind_parameter_def)
  moreover have "map_of kwargs ''event_type'' = None" "map_of kwargs ''priority'' = None"
    by (simp_all add: kwargs_lookup [OF bound] parameter_names_def)
  ultimately show ?thesis
    by (simp add: payload_field [OF bound])
qed

theorem notify_defaults_witness:
  "length [JStr ''Deploy finished''] \<le> 1 \<and>
   map_of [(''url'', JStr ''https://ci.example/42'')] ''event_type'' = None \<and>
   map_of [(''url'', JStr ''https://ci.example/42'')] ''priority'' = None \<and>
   bind_arguments [JStr ''Deploy finished''] [(''url'', JStr ''https://ci.example/42'')] =
     Inr (JStr ''Deploy finished'', JStr ''custom'', JStr ''ambient'',
          [(''url'', JStr ''https://ci.example/42'')]) \<and>
   field ''event_type'' (last (payloads (snd (notify Map.empty [JStr ''Deploy finished'']
      [(''url'', JStr ''https://ci.example/42'')]
      (fresh_world frozen_clock (replying 200 (Json acknowledgment))))))) = Some (JStr ''custom'') \<and>
   field ''priority'' (last (payloads (snd (notify Map.empty [JStr ''Deploy finished'']
      [(''url'', JStr ''https://ci.example/42'')]
      (fresh_world frozen_clock (replying 200 (Json acknowledgment))))))) = Some (JStr ''ambient'')"
proof -
  have l: "length [JStr ''Deploy finished''] \<le> 1" by simp
  have e: "map_of [(''url'', JStr ''https://ci.example/42'')] ''event_type'' = None" by simp
  have p: "map_of [(''url'', JStr ''https://ci.example/42'')] ''priority'' = None" by simp
  have b: "bind_arguments [JStr ''Deploy finished''] [(''url'', JStr ''https://ci.example/42'')] =
     Inr (JStr ''Deploy finished'', JStr ''custom'', JStr ''ambient'',
          [(''url'', JStr ''https://ci.example/42'')])"
    by (simp add: bind_arguments_def bind_parameter_def positional_at_def parameter_names_def)
  show ?thesis
    using l e p b notify_defaults [OF l e p b] by simp
qed

subsection \<open>The timestamp\<close>

text \<open>
  Three ways for the timestamps to differ from what was claimed. A call that passes
  \<open>timestamp="yesterday"\<close> sends that text. When the clock is set back between two
  calls, the second timestamp is the earlier one, as a datetime and as text. When the
  first of two calls reads the clock on a whole second, its timestamp has no fractional
  part and, compared as text, comes after the later one.
\<close>

theorem timestamp_counterexample:
  "field ''timestamp'' (last (payloads (snd (notify Map.empty [JStr ''Deploy finished'']
      [(''timestamp'', JStr ''yesterday'')]
      (fresh_world frozen_clock (replying 200 (Json acknowledgment))))))) =
     Some (JStr ''yesterday'') \<and>
   field ''timestamp'' (last (payloads (snd (notify Map.empty [JStr ''build started''] []
      (fresh_world rewound_clock (replying 200 (Json acknowledgment))))))) =
     Some (JStr ''2023-11-14T22:13:20.003000Z'') \<and>
   field ''timestamp'' (last (payloads (snd (notify Map.empty [JStr ''build finished''] []
      (snd (notify Map.empty [JStr ''build started''] []
        (fresh_world rewound_clock (replying 200 (Json acknowledgment))))))))) =
     Some (JStr ''2023-11-14T22:13:20.001000Z'') \<and>
   \<not> datetime_le (utcnow (rewound_clock 1)) (utcnow (rewound_clock 3)) \<and>
   \<not> text_le ''2023-11-14T22:13:20.003000Z'' ''2023-11-14T22:13:20.001000Z'' \<and>
   field ''timestamp'' (last (payloads (snd (notify Map.empty [JStr ''build started''] []
      (fresh_world whole_second_clock (replying 200 (Json acknowledgment))))))) =
     Some (JStr ''2023-11-14T22:13:20Z'') \<and>
   field ''timestamp'' (last (payloads (snd (notify Map.empty [JStr ''build finished''] []
      (snd (notify Map.empty [JStr ''build started''] []
        (fresh_world whole_second_clock (replying 200 (Json acknowledgment))))))))) =
     Some (JStr ''2023-11-14T22:13:20.000500Z'') \<and>
   datetime_le (utcnow (whole_second_clock 1)) (utcnow (whole_second_clock 3)) \<and>
   \<not> text_le ''2023-11-14T22:13:20Z'' ''2023-11-14T22:13:20.000500Z''"
proof -
  have b: "bind_arguments [JStr ''build started''] [] =
     Inr (JStr ''build started'', JStr ''custom'', JStr ''ambient'', [])"
    and b': "bind_arguments [JStr ''build finished''] [] =
     Inr (JStr ''build finished'', JStr ''custom'', JStr ''ambient'', [])"
    by (simp_all add: bind_simps)
  have n: "map_of ([] :: dict) ''timestamp'' = None"
    by simp
  have texts:
    "isoformat (example_utc\<lparr>microsecond := 3000\<rparr>) = ''2023-11-14T22:13:20.003000''"
    "isoformat (example_utc\<lparr>microsecond := 1000\<rparr>) = ''2023-11-14T22:13:20.001000''"
    "isoformat (example_utc\<lparr>microsecond := 0\<rparr>) = ''2023-11-14T22:13:20''"
    "isoformat (example_utc\<lparr>microsecond := 500\<rparr>) = ''2023-11-14T22:13:20.000500''"
    by (simp_all add: example_utc_def text_simps)
  have first: "field ''timestamp'' (last (payloads (snd (notify Map.empty [JStr ''build started''] []
      (fresh_world c (replying 200 (Json acknowledgment))))))) =
      Some (JStr (isoformat (utcnow (c 1)) @ ''Z''))" for c
    using generated_timestamp [OF b n, of Map.empty "fresh_world c (replying 200 (Json acknowledgment))"]
    by (simp add: fresh_world_def)
  have second: "field ''timestamp'' (last (payloads (snd (notify Map.empty [JStr ''build finished''] []
      (snd (notify Map.empty [JStr ''build started''] []
        (fresh_world c (replying 200 (Json acknowledgment))))))))) =
      Some (JStr (isoformat (utcnow (c 3)) @ ''Z''))" for c
    using generated_timestamp [OF b' n, of Map.empty
        "snd (notify Map.empty [JStr ''build started''] []
          (fresh_world c (replying 200 (Json acknowledgment))))"]
      notify_world [OF b, of Map.empty "fresh_world c (replying 200 (Json acknowledgment))"]
    by (simp add: fresh_world_def numeral_3_eq_3)
  show ?thesis
  proof (intro conjI)
    show "field ''timestamp'' (last (payloads (snd (notify Map.empty [JStr ''Deploy finished'']
        [(''timestamp'', JStr ''yesterday'')]
        (fresh_world frozen_clock (replying 200 (Json acknowledgment))))))) =
       Some (JStr ''yesterday'')"
      by (simp add: run_simps)
    show "field ''timestamp'' (last (payloads (snd (notify Map.empty [JStr ''build started''] []
        (fresh_world rewound_clock (replying 200 (Json acknowledgment))))))) =
       Some (JStr ''2023-11-14T22:13:20.003000Z'')"
      by (simp add: first rewound_clock_def texts)
    show "field ''timestamp'' (last (payloads (snd (notify Map.empty [JStr ''build finished''] []
        (snd (notify Map.empty [JStr ''build started''] []
          (fresh_world rewound_clock (replying 200 (Json acknowledgment))))))))) =
       Some (JStr ''2023-11-14T22:13:20.001000Z'')"
      by (simp add: second rewound_clock_def texts)
    show "\<not> datetime_le (utcnow (rewound_clock 1)) (utcnow (rewound_clock 3))"
      by (simp add: rewound_clock_def example_utc_def datetime_le_def)
    show "\<not> text_le ''2023-11-14T22:13:20.003000Z'' ''2023-11-14T22:13:20.001000Z''"
      by (simp add: text_le_def)
    show "field ''timestamp'' (last (payloads (snd (notify Map.empty [JStr ''build started''] []
        (fresh_world whole_second_clock (replying 200 (Json acknowledgment))))))) =
       Some (JStr ''2023-11-14T22:13:20Z'')"
      by (simp add: first whole_second_clock_def texts)
    show "field ''timestamp'' (last (payloads (snd (notify Map.empty [JStr ''build finished''] []
        (snd (notify Map.empty [JStr ''build started''] []
          (fresh_world whole_second_clock (replying 200 (Json acknowledgment))))))))) =
       Some (JStr ''2023-11-14T22:13:20.000500Z'')"
      by (simp add: second whole_second_clock_def texts)
    show "datetime_le (utcnow (whole_second_clock 1)) (utcnow (whole_second_clock 3))"
      by (simp add: whole_second_clock_def example_utc_def datetime_le_def)
    show "\<not> text_le ''2023-11-14T22:13:20Z'' ''2023-11-14T22:13:20.000500Z''"
      by (simp add: text_le_def)
  qed
qed

text \<open>
  Claim C8, as the code has it. Unless the caller passes a keyword \<open>timestamp\<close>, the
  timestamp sent is the ISO-8601 text of the UTC reading taken during the call, followed
  by \<open>Z\<close>. Over two calls made one after the other, the two timestamps are the texts of
  the two readings and of no other datetimes, so the datetimes they denote are in order
  exactly when the two readings of the clock are.
\<close>

theorem notify_timestamps:
  assumes "bind_arguments args named = Inr b"
    and "bind_arguments args' named' = Inr b'"
    and "map_of named ''timestamp'' = None"
    and "map_of named' ''timestamp'' = None"
    and "valid_datetime (utcnow (clock w (reads w + 1)))"
    and "valid_datetime (utcnow (clock w (reads w + 3)))"
  shows "field ''timestamp'' (last (payloads (snd (notify environ args named w)))) =
           Some (JStr (isoformat (utcnow (clock w (reads w + 1))) @ ''Z'')) \<and>
         field ''timestamp'' (last (payloads (snd (notify environ args' named'
             (snd (notify environ args named w)))))) =
           Some (JStr (isoformat (utcnow (clock w (reads w + 3))) @ ''Z'')) \<and>
         (\<forall>d d'. valid_datetime d \<and> valid_datetime d' \<and>
            field ''timestamp'' (last (payloads (snd (notify environ args named w)))) =
              Some (JStr (isoformat d @ ''Z'')) \<and>
            field ''timestamp'' (last (payloads (snd (notify environ args' named'
                (snd (notify environ args named w)))))) =
              Some (JStr (isoformat d' @ ''Z'')) \<longrightarrow>
            d = utcnow (clock w (reads w + 1)) \<and> d' = utcnow (clock w (reads w + 3)) \<and>
            datetime_le d d' =
              datetime_le (utcnow (clock w (reads w + 1))) (utcnow (clock w (reads w + 3))))"
proof -
  have first: "field ''timestamp'' (last (payloads (snd (notify environ args named w)))) =
      Some (JStr (isoformat (utcnow (clock w (reads w + 1))) @ ''Z''))"
    using generated_timestamp [OF assms(1,3), of environ w] by simp
  have second: "field ''timestamp'' (last (payloads (snd (notify environ args' named'
             (snd (notify environ args named w)))))) =
      Some (JStr (isoformat (utcnow (clock w (reads w + 3))) @ ''Z''))"
    using generated_timestamp [OF assms(2,4), of environ "snd (notify environ args named w)"]
      notify_world [OF assms(1), of environ w]
    by (simp add: numeral_3_eq_3)
  have same: "d = utcnow (clock w (reads w + 1)) \<and> d' = utcnow (clock w (reads w + 3))"
    if "valid_datetime d" "valid_datetime d'"
      "isoformat (utcnow (clock w (reads w + 1))) = isoformat d"
      "isoformat (utcnow (clock w (reads w + 3))) = isoformat d'" for d d'
    using that assms(5,6) isoformat_inj by metis
  show ?thesis
    using same by (simp add: first second) blast
qed

theorem notify_timestamps_witness:
  "bind_arguments [JStr ''build started''] [] =
     Inr (JStr ''build started'', JStr ''custom'', JStr ''ambient'', []) \<and>
   bind_arguments [JStr ''build finished''] [] =
     Inr (JStr ''build finished'', JStr ''custom'', JStr ''ambient'', []) \<and>
   map_of ([] :: dict) ''timestamp'' = None \<and>
   valid_datetime (utcnow (clock (fresh_world ticking_clock (replying 200 (Json acknowledgment)))
     (reads (fresh_world ticking_clock (replying 200 (Json acknowledgment))) + 1))) \<and>
   valid_datetime (utcnow (clock (fresh_world ticking_clock (replying 200 (Json acknowledgment)))
     (reads (fresh_world ticking_clock (replying 200 (Json acknowledgment))) + 3))) \<and>
   field ''timestamp'' (last (payloads (snd (notify Map.empty [JStr ''build started''] []
      (fresh_world ticking_clock (replying 200 (Json acknowledgment))))))) =
     Some (JStr ''2023-11-14T22:13:20.001000Z'') \<and>
   field ''timestamp'' (last (payloads (snd (notify Map.empty [JStr ''build finished''] []
      (snd (notify Map.empty [JStr ''build started''] []
        (fresh_world ticking_clock (replying 200 (Json acknowledgment))))))))) =
     Some (JStr ''2023-11-14T22:13:20.003000Z'')"
proof -
  let ?w = "fresh_world ticking_clock (replying 200 (Json acknowledgment))"
  have b: "bind_arguments [JStr ''build started''] [] =
     Inr (JStr ''build started'', JStr ''custom'', JStr ''ambient'', [])"
    and b': "bind_arguments [JStr ''build finished''] [] =
     Inr (JStr ''build finished'', JStr ''custom'', JStr ''ambient'', [])"
    by (simp_all add: bind_simps)
  have n: "map_of ([] :: dict) ''timestamp'' = None"
    by simp
  have v1: "valid_datetime (utcnow (clock ?w (reads ?w + 1)))"
    and v3: "valid_datetime (utcnow (clock ?w (reads ?w + 3)))"
    by (simp_all add: fresh_world_def ticking_clock_def example_utc_def valid_datetime_def)
  have iso1: "isoformat (utcnow (clock ?w (reads ?w + 1))) @ ''Z'' = ''2023-11-14T22:13:20.001000Z''"
    and iso3: "isoformat (utcnow (clock ?w (reads ?w + 3))) @ ''Z'' = ''2023-11-14T22:13:20.003000Z''"
    by (simp_all add: fresh_world_def ticking_clock_def example_utc_def text_simps)
  note t = notify_timestamps [OF b b' n n v1 v3, of Map.empty]
  have first: "field ''timestamp'' (last (payloads (snd (notify Map.empty [JStr ''build started''] []
      ?w)))) = Some (JStr ''2023-11-14T22:13:20.001000Z'')"
    using t [THEN conjunct1] by (simp only: iso1)
  have second: "field ''timestamp'' (last (payloads (snd (notify Map.empty [JStr ''build finished''] []
      (snd (notify Map.empty [JStr ''build started''] [] ?w)))))) =
      Some (JStr ''2023-11-14T22:13:20.003000Z'')"
    using t [THEN conjunct2, THEN conjunct1] by (simp only: iso3)
  show ?thesis
    by (intro conjI b b' n v1 v3 first second)
qed

subsection \<open>The request\<close>




subsection \<open>The shape of the reply\<close>

text \<open>
  Claim C10. A reply with a 2xx status and a body that decodes as JSON makes \<open>notify\<close>
  return the decoded value, whatever its shape: no key is looked for.
\<close>

theorem notify_returns_decoded_body:
  assumes "bind_arguments args named = Inr b"
    and "\<forall>req. service w req = Replies resp"
    and "200 \<le> status_code resp" and "status_code resp < 300"
    and "content resp = Json j"
  shows "fst (notify environ args named w) = Some (Inr j)"
proof -
  obtain title event_type priority kwargs where b: "b = (title, event_type, priority, kwargs)"
    by (cases b)
  note bound = assms(1) [unfolded b]
  have "\<not> is_redirect resp"
    using assms(3,4) by (rule success_not_redirect)
  then show ?thesis
    using assms(2-5)
    by (simp add: notify_bound [OF bound] notify_body_outcome deliver_reply response_json_def)
qed

theorem notify_returns_decoded_body_witness:
  "bind_arguments [JStr ''Deploy finished''] [] =
     Inr (JStr ''Deploy finished'', JStr ''custom'', JStr ''ambient'', []) \<and>
   (\<forall>req. service (fresh_world frozen_clock (replying 200 (Json (JArr [JStr ''queued''])))) req =
      Replies \<lparr>status_code = 200, location = None, content = Json (JArr [JStr ''queued''])\<rparr>) \<and>
   200 \<le> status_code \<lparr>status_code = 200, location = None, content = Json (JArr [JStr ''queued''])\<rparr> \<and>
   status_code \<lparr>status_code = 200, location = None, content = Json (JArr [JStr ''queued''])\<rparr> < 300 \<and>
   content \<lparr>status_code = 200, location = None, content = Json (JArr [JStr ''queued''])\<rparr> = Json (JArr [JStr ''queued'']) \<and>
   fst (notify Map.empty [JStr ''Deploy finished''] []
     (fresh_world frozen_clock (replying 200 (Json (JArr [JStr ''queued'']))))) =
     Some (Inr (JArr [JStr ''queued'']))"
proof -
  have b: "bind_arguments [JStr ''Deploy finished''] [] =
     Inr (JStr ''Deploy finished'', JStr ''custom'', JStr ''ambient'', [])"
    by (simp add: bind_simps)
  have s: "\<forall>req. service (fresh_world frozen_clock (replying 200 (Json (JArr [JStr ''queued''])))) req =
      Replies \<lparr>status_code = 200, location = None, content = Json (JArr [JStr ''queued''])\<rparr>"
    by (simp add: fresh_world_def replying_def)
  have lo: "200 \<le> status_code \<lparr>status_code = 200, location = None, content = Json (JArr [JStr ''queued''])\<rparr>"
    and hi: "status_code \<lparr>status_code = 200, location = None, content = Json (JArr [JStr ''queued''])\<rparr> < 300"
    and c: "content \<lparr>status_code = 200, location = None, content = Json (JArr [JStr ''queued''])\<rparr> = Json (JArr [JStr ''queued''])"
    by simp_all
  show ?thesis
    using b s notify_returns_decoded_body [OF b s lo hi c, of Map.empty] by simp
qed

end
